theory Spec2Isabelle
  imports Main
begin

section \<open>Data model of provider.go\<close>

text \<open>
  Go strings are byte sequences: \<open>len\<close> counts bytes and \<open>url[i]\<close> reads a byte.
  They are modelled as \<open>string\<close>, a list of 8-bit characters.

  An \<open>error\<close> built by \<open>fmt.Errorf\<close> carries nothing but its formatted message.
  The errors a client call returns are values of the same interface; the source only
  ever prints them with \<open>%s\<close>, that is, reads their message.
\<close>

datatype error = Errorf (Error: string)

text \<open>
  A Go call either returns or panics. The dynamic type assertions of the source
  (\<open>meta.(*profitbricks.Client)\<close>, \<open>username.(string)\<close>, ...) panic on a value of
  another dynamic type.
\<close>

datatype 'a go = Panic | Return 'a

text \<open>The values of type \<open>interface{}\<close> that the schema accessors hand out.\<close>

datatype iface = VString string | VInt int | VNil

text \<open>
  \<open>time.Duration\<close> is a signed 64-bit count of nanoseconds. The source only forms the
  constants \<open>10 * time.Second\<close> and \<open>60 * time.Minute\<close>, both far below \<open>2^63\<close>, so
  durations are integers here.
\<close>

type_synonym Duration = int

definition Second :: Duration where
  "Second = 1000000000"

definition Minute :: Duration where
  "Minute = 60 * Second"

text \<open>
  \<open>schema.ResourceTimeout\<close>: one duration per operation kind. The fields are pointers
  and \<open>schema.DefaultTimeout\<close> boxes a duration into one; the table of this file sets
  all four, so the model keeps the durations themselves.
\<close>

record ResourceTimeout =
  Create :: Duration
  Update :: Duration
  Delete :: Duration
  Default :: Duration

definition DefaultTimeout :: "Duration \<Rightarrow> Duration" where
  "DefaultTimeout t = t"

text \<open>
  \<open>*schema.ResourceData\<close> is used through three of its methods, \<open>GetOk\<close>, \<open>Get\<close> and
  \<open>Timeout\<close>. The first two are kept as they are, functions of the key; the timeout
  table the third one reads is the field \<open>timeouts\<close> (see \<open>dTimeout\<close> below).
\<close>

record ResourceData =
  GetOk :: "string \<Rightarrow> iface \<times> bool"
  Get :: "string \<Rightarrow> iface"
  timeouts :: ResourceTimeout

text \<open>The struct \<open>Config\<close> that \<open>providerConfigure\<close> fills in.\<close>

record Config =
  Username :: string
  Password :: string
  Endpoint :: string
  Retries :: int
  Token :: string

text \<open>
  \<open>profitbricks.RequestStatus\<close>, of which the source reads \<open>Metadata.Status\<close> and
  \<open>Metadata.Message\<close> and passes the whole value on as the payload.
\<close>

record RequestStatusMetadata =
  Status :: string
  Message :: string

record RequestStatus =
  Metadata :: RequestStatusMetadata

text \<open>
  The remote API is outside the program. A client is the behaviour of its method
  \<open>GetRequestStatus\<close>: given the state \<open>'w\<close> of the remote world and a path it answers
  with an error or a request status, and leaves the world in a new state. The source
  reads the status only when the error is \<open>nil\<close>; an answer with neither an error nor a
  status is not modelled. \<open>meta\<close> is an \<open>interface{}\<close> that holds such a client or
  anything else.
\<close>

type_synonym 'w GetRequestStatus = "'w \<Rightarrow> string \<Rightarrow> (error + RequestStatus) \<times> 'w"

datatype 'w meta = ClientPtr "'w GetRequestStatus" | OtherMeta

text \<open>
  What a \<open>resource.StateRefreshFunc\<close> returns: the payload (\<open>nil\<close> is \<open>None\<close>), the
  state label and the error (\<open>nil\<close> is \<open>None\<close>).
\<close>

type_synonym refreshed = "RequestStatus option \<times> string \<times> error option"

type_synonym 'w StateRefreshFunc = "'w \<Rightarrow> refreshed go \<times> 'w"

record 'w StateChangeConf =
  Pending :: "string list"
  Target :: "string list"
  Refresh :: "'w StateRefreshFunc"
  Timeout :: Duration
  MinTimeout :: Duration
  Delay :: Duration
  NotFoundChecks :: int

section \<open>The functions of provider.go\<close>

text \<open>\<open>cleanURL\<close>: \<open>url[length-1]\<close> is only read when \<open>length > 1\<close>, so it is in range.\<close>

definition cleanURL :: "string \<Rightarrow> string" where
  "cleanURL url =
     (let length = length url
      in if length > 1 \<and> url ! (length - 1) = CHR ''/'' then take (length - 1) url else url)"

text \<open>
  \<open>providerConfigure\<close>. The three checks return early with an error; otherwise the
  function falls through to the \<open>Config\<close> literal, whose type assertions panic on a
  value of the wrong dynamic type, and returns whatever \<open>config.Client()\<close> returns.
  \<open>Config.Client\<close> is defined in another file; it is the parameter \<open>Client\<close>, and
  \<open>Inr\<close> carries its result (a client and an error of its own) unchanged.
  \<open>token == ""\<close> compares an \<open>interface{}\<close> with a string: it holds exactly for the
  string \<open>""\<close>.
\<close>

definition providerConfigure :: "(Config \<Rightarrow> 'r) \<Rightarrow> ResourceData \<Rightarrow> (error + 'r) go" where
  "providerConfigure Client d =
     (let (username, usernameOk) = GetOk d ''username'';
          (password, passwordOk) = GetOk d ''password'';
          (token, _) = GetOk d ''token'';
          early =
            (if token = VString ''''
             then (if \<not> usernameOk
                   then Some (Errorf ''Neither ProfitBricks token, nor ProfitBricks username has been provided'')
                   else if \<not> passwordOk
                   then Some (Errorf ''Neither ProfitBricks token, nor ProfitBricks password has been provided'')
                   else None)
             else (if usernameOk \<or> passwordOk
                   then Some (Errorf ''Only provide ProfitBricks token OR ProfitBricks username/password.'')
                   else None))
      in case early of
           Some err \<Rightarrow> Return (Inl err)
         | None \<Rightarrow>
             (case (username, password, Get d ''endpoint'', Get d ''retries'', token) of
                (VString u, VString p, VString e, VInt r, VString t) \<Rightarrow>
                  Return (Inr (Client \<lparr>Username = u, Password = p, Endpoint = cleanURL e,
                                       Retries = r, Token = t\<rparr>))
              | _ \<Rightarrow> Panic))"

text \<open>\<open>resourceStateRefreshFunc\<close>: the closure it returns, applied to the remote world.\<close>

definition resourceStateRefreshFunc :: "'w meta \<Rightarrow> string \<Rightarrow> 'w StateRefreshFunc" where
  "resourceStateRefreshFunc meta path w =
     (case meta of
        OtherMeta \<Rightarrow> (Panic, w)
      | ClientPtr GetRequestStatus \<Rightarrow>
          if path = '''' then
            (Return (None, '''', Some (Errorf ''Can not check a state when path is empty'')), w)
          else
            (case GetRequestStatus w path of
               (Inl err, w') \<Rightarrow>
                 (Return (None, '''',
                    Some (Errorf (''Request failed with following error: '' @ Error err))), w')
             | (Inr request, w') \<Rightarrow>
                 if Status (Metadata request) = ''FAILED'' then
                   (Return (None, '''',
                      Some (Errorf (''Request failed with following error: ''
                                    @ Message (Metadata request)))), w')
                 else if Status (Metadata request) = ''DONE'' then
                   (Return (Some request, ''DONE'', None), w')
                 else
                   (Return (None, Status (Metadata request), None), w')))"

definition resourcePendingStates :: "string list" where
  "resourcePendingStates = [''RUNNING'', ''QUEUED'']"

definition resourceTargetStates :: "string list" where
  "resourceTargetStates = [''DONE'']"

definition resourceDefaultTimeouts :: ResourceTimeout where
  "resourceDefaultTimeouts =
     \<lparr>Create = DefaultTimeout (60 * Minute),
      Update = DefaultTimeout (60 * Minute),
      Delete = DefaultTimeout (60 * Minute),
      Default = DefaultTimeout (60 * Minute)\<rparr>"

text \<open>
  Modelled from the spec: the method \<open>Timeout\<close> of \<open>schema.ResourceData\<close> is not in
  provider.go. By section 6 of the specification the operation kind, one of create,
  update, delete and default, selects the timeout of the wait policy from the table of
  the resource. Any other key is given the entry of the default kind.
\<close>

definition dTimeout :: "ResourceData \<Rightarrow> string \<Rightarrow> Duration" where
  "dTimeout d key =
     (if key = ''create'' then Create (timeouts d)
      else if key = ''update'' then Update (timeouts d)
      else if key = ''delete'' then Delete (timeouts d)
      else Default (timeouts d))"

definition getStateChangeConf ::
    "'w meta \<Rightarrow> ResourceData \<Rightarrow> string \<Rightarrow> string \<Rightarrow> 'w StateChangeConf" where
  "getStateChangeConf meta d location timeoutType =
     \<lparr>Pending = resourcePendingStates,
      Target = resourceTargetStates,
      Refresh = resourceStateRefreshFunc meta location,
      Timeout = dTimeout d timeoutType,
      MinTimeout = 10 * Second,
      Delay = 10 * Second,
      NotFoundChecks = 600\<rparr>"

section \<open>The poller and the wait coordinator of the specification\<close>

text \<open>
  Modelled from the spec: the loop that drives a \<open>StateChangeConf\<close> (\<open>WaitForState\<close> of
  the Terraform helper library) is not in provider.go, and the refresh function hands it
  an unsorted triple. The specification describes the loop as a state machine over
  sorted poll results: a lookup error, a transport error, or a status snapshot that is
  Pending, Succeeded or Failed (sections 3 and 4.2).
\<close>

datatype StatusSnapshot =
    SnapPending string
  | SnapSucceeded RequestStatus
  | SnapFailed string

datatype polled =
    LookupError error
  | TransportError error
  | Snapshot StatusSnapshot

text \<open>
  Modelled from the spec: the classifier of section 4.1 as a function of its own. In
  the source it is the tail of the refresh function; the label, the payload and the
  failure message are those that lines 149 to 157 produce.
\<close>

definition classify :: "string \<Rightarrow> string \<Rightarrow> RequestStatus \<Rightarrow> StatusSnapshot" where
  "classify rawStatus message payload =
     (if rawStatus = ''FAILED''
      then SnapFailed (''Request failed with following error: '' @ message)
      else if rawStatus = ''DONE'' then SnapSucceeded payload
      else SnapPending rawStatus)"

text \<open>
  Modelled from the spec: the poller of section 4.2, which is the refresh function of
  the source with its three errors told apart by their cause. \<open>unsorted\<close> forgets the
  cause again; lemma \<open>refresh_is_poll\<close> below states that this gives back the refresh
  function.
\<close>

definition poll :: "'w GetRequestStatus \<Rightarrow> string \<Rightarrow> 'w \<Rightarrow> polled \<times> 'w" where
  "poll get handle w =
     (if handle = '''' then
        (LookupError (Errorf ''Can not check a state when path is empty''), w)
      else
        (case get w handle of
           (Inl err, w') \<Rightarrow>
             (TransportError (Errorf (''Request failed with following error: '' @ Error err)), w')
         | (Inr request, w') \<Rightarrow>
             (Snapshot (classify (Status (Metadata request)) (Message (Metadata request)) request),
              w')))"

fun unsorted :: "polled \<Rightarrow> refreshed" where
  "unsorted (LookupError err) = (None, '''', Some err)"
| "unsorted (TransportError err) = (None, '''', Some err)"
| "unsorted (Snapshot (SnapFailed message)) = (None, '''', Some (Errorf message))"
| "unsorted (Snapshot (SnapSucceeded payload)) = (Some payload, ''DONE'', None)"
| "unsorted (Snapshot (SnapPending label)) = (None, label, None)"

text \<open>
  Modelled from the spec: the wait policy of section 3 and the state machine of
  section 4.3, which stand for the loop that is not in provider.go.

  The coordinator is Pending while it runs; \<open>waiting\<close> is what it remembers then: the
  time slept so far, the transport failures in a row, the last raw status seen and the
  number of status queries issued. Its four terminal states are the values of
  \<open>terminal\<close>. Time is the time slept; a poll itself takes none. Cancellation by the
  caller (section 5) is left out.
\<close>

record WaitPolicy =
  timeout :: Duration
  minPollInterval :: Duration
  initialDelay :: Duration
  notFoundTolerance :: int

record waiting =
  elapsed :: Duration
  failures :: nat
  lastStatus :: string
  polls :: nat

datatype terminal =
    Succeeded RequestStatus
  | Failed string
  | TimedOut Duration string
  | Aborted error

text \<open>
  Modelled from the spec: a coordinator that stays Pending after a tick is TimedOut
  once the elapsed time exceeds the timeout, and otherwise sleeps for the minimum poll
  interval.
\<close>

definition stayPending :: "WaitPolicy \<Rightarrow> waiting \<Rightarrow> terminal \<times> waiting + waiting" where
  "stayPending policy st =
     (if timeout policy < elapsed st then Inl (TimedOut (elapsed st) (lastStatus st), st)
      else Inr (st\<lparr>elapsed := elapsed st + minPollInterval policy\<rparr>))"

text \<open>
  Modelled from the spec: the transition rule of section 4.3 for one tick, given what
  the poll returned. A lookup error aborts at once and is no status query. A transport
  error is counted; while the tolerance is not used up the coordinator stays Pending,
  then it aborts with that error. A Pending snapshot keeps the coordinator Pending and
  ends the run of failures; Succeeded and Failed are terminal.
\<close>

definition tick :: "WaitPolicy \<Rightarrow> polled \<Rightarrow> waiting \<Rightarrow> terminal \<times> waiting + waiting" where
  "tick policy result st =
     (case result of
        LookupError err \<Rightarrow> Inl (Aborted err, st)
      | TransportError err \<Rightarrow>
          (let st' = st\<lparr>failures := failures st + 1, polls := polls st + 1\<rparr>
           in if notFoundTolerance policy \<le> int (failures st') then Inl (Aborted err, st')
              else stayPending policy st')
      | Snapshot (SnapPending label) \<Rightarrow>
          stayPending policy (st\<lparr>failures := 0, lastStatus := label, polls := polls st + 1\<rparr>)
      | Snapshot (SnapSucceeded payload) \<Rightarrow> Inl (Succeeded payload, st\<lparr>polls := polls st + 1\<rparr>)
      | Snapshot (SnapFailed message) \<Rightarrow> Inl (Failed message, st\<lparr>polls := polls st + 1\<rparr>))"

text \<open>
  Modelled from the spec: the loop of the coordinator. It may run for as long as the
  remote side stays pending, so it takes fuel, one unit per tick; \<open>None\<close> says that
  the fuel ran out before a terminal state.
\<close>

fun waitLoop ::
    "nat \<Rightarrow> WaitPolicy \<Rightarrow> 'w GetRequestStatus \<Rightarrow> string \<Rightarrow> waiting \<Rightarrow> 'w
      \<Rightarrow> (terminal \<times> waiting \<times> 'w) option" where
  "waitLoop 0 policy get handle st w = None"
| "waitLoop (Suc fuel) policy get handle st w =
     (case poll get handle w of
        (result, w') \<Rightarrow>
          (case tick policy result st of
             Inl (final, st') \<Rightarrow> Some (final, st', w')
           | Inr st' \<Rightarrow> waitLoop fuel policy get handle st' w'))"

text \<open>
  Modelled from the spec: \<open>waitForCompletion\<close>. The coordinator observes the initial
  delay before the first tick.
\<close>

definition waitForCompletion ::
    "nat \<Rightarrow> string \<Rightarrow> WaitPolicy \<Rightarrow> 'w GetRequestStatus \<Rightarrow> 'w
      \<Rightarrow> (terminal \<times> waiting \<times> 'w) option" where
  "waitForCompletion fuel handle policy get w =
     waitLoop fuel policy get handle
       \<lparr>elapsed = initialDelay policy, failures = 0, lastStatus = '''', polls = 0\<rparr> w"

text \<open>
  Modelled from the spec: the wait policy that a \<open>StateChangeConf\<close> configures
  (section 6: timeout, minimum interval, initial delay, tolerance).
\<close>

definition policyOf :: "'w StateChangeConf \<Rightarrow> WaitPolicy" where
  "policyOf conf =
     \<lparr>timeout = Timeout conf,
      minPollInterval = MinTimeout conf,
      initialDelay = Delay conf,
      notFoundTolerance = NotFoundChecks conf\<rparr>"

section \<open>Remote sides for concrete runs\<close>

text \<open>
  A remote side that answers from a script, one entry per query, and then reports an
  error; a request status with a given raw status and message; and the world reached
  after \<open>n\<close> queries of a path.
\<close>

definition scripted :: "(error + RequestStatus) list GetRequestStatus" where
  "scripted w path =
     (case w of
        [] \<Rightarrow> (Inl (Errorf ''connection refused''), [])
      | answer # rest \<Rightarrow> (answer, rest))"

definition requestStatus :: "string \<Rightarrow> string \<Rightarrow> RequestStatus" where
  "requestStatus s message = \<lparr>Metadata = \<lparr>Status = s, Message = message\<rparr>\<rparr>"


text \<open>
  A remote side that cannot be reached: every query fails, and the world counts them.
\<close>

definition unreachable :: "nat GetRequestStatus" where
  "unreachable w path = (Inl (Errorf ''connection refused''), Suc w)"

text \<open>Resource data that holds nothing but a timeout table.\<close>

definition resourceData :: "ResourceTimeout \<Rightarrow> ResourceData" where
  "resourceData t = \<lparr>GetOk = (\<lambda>key. (VNil, False)), Get = (\<lambda>key. VNil), timeouts = t\<rparr>"

text \<open>
  Provider data with a token and no user name or password, as the schema of
  \<open>Provider\<close> types it: strings, and an integer for \<open>retries\<close>.
\<close>

definition tokenData :: ResourceData where
  "tokenData =
     \<lparr>GetOk = (\<lambda>key. if key = ''token'' then (VString ''t0k3n'', True) else (VString '''', False)),
      Get = (\<lambda>key. if key = ''retries'' then VInt 50 else VString ''https://api.example.com/v4/''),
      timeouts = resourceDefaultTimeouts\<rparr>"

section \<open>cleanURL\<close>

lemma cleanURL_last_butlast:
  "cleanURL url = (if 1 < length url \<and> last url = CHR ''/'' then butlast url else url)"
  by (cases url rule: rev_cases) (auto simp: cleanURL_def Let_def butlast_conv_take)

lemma cleanURL_two_slashes: "cleanURL (p @ ''//'') = p @ ''/''"
  by (simp add: cleanURL_last_butlast butlast_append)

text \<open>
  C10, as stated, says that \<open>cleanURL\<close> is not idempotent on strings ending in two
  slashes. The string \<open>//\<close> ends in two slashes, and there a second call changes
  nothing: the first call returns \<open>/\<close>, which the length guard leaves alone.
\<close>

theorem cleanURL_idempotent_on_two_slashes:
  "cleanURL (cleanURL ''//'') = cleanURL ''//''"
  by (simp add: cleanURL_def)

text \<open>
  C10, amended. For every string \<open>url\<close>, \<open>cleanURL url\<close> is \<open>url\<close> without its final
  character when \<open>url\<close> is longer than one character and ends in a slash, and \<open>url\<close>
  itself otherwise. The one-character string \<open>/\<close> is returned unchanged. One call strips
  one trailing slash: \<open>p//\<close> becomes \<open>p/\<close>. So a second call changes the result again
  for every string that ends in two slashes and has a character before them; on \<open>//\<close>
  alone a second call changes nothing.
\<close>

theorem cleanURL_strips_one_slash:
  "cleanURL url = (if 1 < length url \<and> last url = CHR ''/'' then butlast url else url)
   \<and> cleanURL ''/'' = ''/''
   \<and> cleanURL (p @ ''//'') = p @ ''/''
   \<and> (p \<noteq> [] \<longrightarrow> cleanURL (cleanURL (p @ ''//'')) \<noteq> cleanURL (p @ ''//''))"
proof -
  have "cleanURL ''/'' = ''/''"
    by (simp add: cleanURL_def)
  moreover have "cleanURL (cleanURL (p @ ''//'')) \<noteq> cleanURL (p @ ''//'')" if "p \<noteq> []"
    using that by (simp add: cleanURL_two_slashes) (simp add: cleanURL_last_butlast butlast_append)
  ultimately show ?thesis
    using cleanURL_last_butlast[of url] cleanURL_two_slashes[of p] by blast
qed

theorem cleanURL_strips_one_slash_witness:
  "cleanURL ''https://api//'' = ''https://api/''
   \<and> cleanURL (cleanURL ''https://api//'') \<noteq> cleanURL ''https://api//''"
proof -
  have a: "''https://api'' @ ''//'' = ''https://api//''"
    and b: "''https://api'' @ ''/'' = ''https://api/''"
    and c: "''https://api'' \<noteq> ''''"
    by simp_all
  from cleanURL_strips_one_slash[of "''https://api//''" "''https://api''", unfolded a b] c
  show ?thesis by blast
qed

section \<open>providerConfigure\<close>

text \<open>
  C9. Let the schema accessors hand out what the schema of \<open>Provider\<close> declares: strings
  for user name, password, token and endpoint, an integer for the retries.
  \<open>providerConfigure\<close> returns an error of its own if and only if the token is empty
  and the user name or the password is not set, or the token is not empty and the user
  name or the password is set. In every other case it builds the \<open>Config\<close> from the
  fields, the endpoint cleaned by \<open>cleanURL\<close>, and returns what \<open>Config.Client\<close>
  returns for it.
\<close>

theorem providerConfigure_one_authentication_method:
  assumes "GetOk d ''username'' = (VString username, usernameOk)"
    and "GetOk d ''password'' = (VString password, passwordOk)"
    and "GetOk d ''token'' = (VString token, tokenOk)"
    and "Get d ''endpoint'' = VString endpoint"
    and "Get d ''retries'' = VInt retries"
  shows "((\<exists>err. providerConfigure Client d = Return (Inl err)) \<longleftrightarrow>
            (token = '''' \<and> (\<not> usernameOk \<or> \<not> passwordOk))
            \<or> (token \<noteq> '''' \<and> (usernameOk \<or> passwordOk)))
       \<and> ((\<forall>err. providerConfigure Client d \<noteq> Return (Inl err)) \<longrightarrow>
            providerConfigure Client d =
              Return (Inr (Client \<lparr>Username = username, Password = password,
                Endpoint = cleanURL endpoint, Retries = retries, Token = token\<rparr>)))"
  using assms by (auto simp: providerConfigure_def)

theorem providerConfigure_one_authentication_method_witness:
  "providerConfigure (\<lambda>config. config) tokenData =
     Return (Inr \<lparr>Username = '''', Password = '''', Endpoint = ''https://api.example.com/v4'',
                  Retries = 50, Token = ''t0k3n''\<rparr>)"
proof -
  have u: "GetOk tokenData ''username'' = (VString '''', False)"
    and p: "GetOk tokenData ''password'' = (VString '''', False)"
    and t: "GetOk tokenData ''token'' = (VString ''t0k3n'', True)"
    and e: "Get tokenData ''endpoint'' = VString ''https://api.example.com/v4/''"
    and r: "Get tokenData ''retries'' = VInt 50"
    by (simp_all add: tokenData_def)
  have c: "cleanURL ''https://api.example.com/v4/'' = ''https://api.example.com/v4''"
    by (simp add: cleanURL_def)
  from providerConfigure_one_authentication_method[OF u p t e r, of "\<lambda>config. config"] c
  show ?thesis by auto
qed

section \<open>The wait configuration\<close>

text \<open>
  C7. For a resource whose timeout table is \<open>resourceDefaultTimeouts\<close>, and for every
  operation kind (create, update, delete, default), \<open>getStateChangeConf\<close> configures a
  timeout of 60 minutes, a minimum poll interval of 10 seconds, a delay of 10 seconds
  before the first poll and 600 not-found checks.
\<close>

theorem getStateChangeConf_defaults:
  assumes "timeouts d = resourceDefaultTimeouts"
    and "timeoutType \<in> {''create'', ''update'', ''delete'', ''default''}"
  shows "Timeout (getStateChangeConf meta d location timeoutType) = 60 * Minute
       \<and> MinTimeout (getStateChangeConf meta d location timeoutType) = 10 * Second
       \<and> Delay (getStateChangeConf meta d location timeoutType) = 10 * Second
       \<and> NotFoundChecks (getStateChangeConf meta d location timeoutType) = 600"
  using assms
  by (auto simp: getStateChangeConf_def dTimeout_def resourceDefaultTimeouts_def DefaultTimeout_def)

theorem getStateChangeConf_defaults_witness:
  "Timeout (getStateChangeConf (ClientPtr scripted) (resourceData resourceDefaultTimeouts)
      ''requests/1'' ''delete'') = 3600000000000
   \<and> MinTimeout (getStateChangeConf (ClientPtr scripted) (resourceData resourceDefaultTimeouts)
      ''requests/1'' ''delete'') = 10000000000
   \<and> Delay (getStateChangeConf (ClientPtr scripted) (resourceData resourceDefaultTimeouts)
      ''requests/1'' ''delete'') = 10000000000
   \<and> NotFoundChecks (getStateChangeConf (ClientPtr scripted) (resourceData resourceDefaultTimeouts)
      ''requests/1'' ''delete'') = 600"
proof -
  have t: "timeouts (resourceData resourceDefaultTimeouts) = resourceDefaultTimeouts"
    by (simp add: resourceData_def)
  have k: "''delete'' \<in> {''create'', ''update'', ''delete'', ''default''}"
    by simp
  from getStateChangeConf_defaults[OF t k, of "ClientPtr scripted" "''requests/1''"]
  show ?thesis by (simp add: Minute_def Second_def)
qed

section \<open>The refresh function\<close>

text \<open>
  The refresh function is the poller with the cause of an error forgotten, and the
  poller issues its query exactly when the refresh function does.
\<close>

lemma refresh_is_poll:
  "resourceStateRefreshFunc (ClientPtr get) path w =
     (Return (unsorted (fst (poll get path w))), snd (poll get path w))"
  by (auto simp: resourceStateRefreshFunc_def poll_def classify_def split: prod.splits sum.splits)

text \<open>
  A failed query and a FAILED request with the same text give the same triple: the
  refresh function hands the loop nothing that tells them apart.
\<close>

lemma transport_error_like_FAILED:
  assumes "path \<noteq> ''''"
    and "get w path = (Inl (Errorf text), w')"
    and "get' v path = (Inr (requestStatus ''FAILED'' text), v')"
  shows "fst (resourceStateRefreshFunc (ClientPtr get) path w) =
         fst (resourceStateRefreshFunc (ClientPtr get') path v)"
  using assms by (simp add: resourceStateRefreshFunc_def requestStatus_def)

text \<open>
  The payload is not \<open>nil\<close> only for DONE: whenever the refresh function returns without
  an error, it returns a payload if and only if the raw status is DONE.
\<close>

lemma refresh_payload_only_when_DONE:
  assumes "path \<noteq> ''''" and "get w path = (Inr request, w')"
    and "resourceStateRefreshFunc (ClientPtr get) path w = (Return (payload, label, None), w'')"
  shows "(payload \<noteq> None \<longleftrightarrow> Status (Metadata request) = ''DONE'')
       \<and> (Status (Metadata request) \<noteq> ''DONE'' \<longrightarrow>
            payload = None \<and> label = Status (Metadata request))"
  using assms by (auto simp: resourceStateRefreshFunc_def split: if_splits)

text \<open>
  C1. Let the status query succeed with a raw status \<open>s\<close> other than FAILED and DONE.
  Then the refresh function returns no error, no payload, and \<open>s\<close> itself as the state
  label.
\<close>

theorem refresh_other_status_is_pending:
  assumes "path \<noteq> ''''"
    and "get w path = (Inr request, w')"
    and "Status (Metadata request) = s"
    and "s \<noteq> ''FAILED''" and "s \<noteq> ''DONE''"
  shows "resourceStateRefreshFunc (ClientPtr get) path w = (Return (None, s, None), w')"
  using assms by (simp add: resourceStateRefreshFunc_def)

theorem refresh_other_status_is_pending_witness:
  "resourceStateRefreshFunc (ClientPtr scripted) ''requests/1''
     [Inr (requestStatus ''PAUSED'' '''')] = (Return (None, ''PAUSED'', None), [])"
proof -
  have g: "scripted [Inr (requestStatus ''PAUSED'' '''')] ''requests/1'' =
             (Inr (requestStatus ''PAUSED'' ''''), [])"
    by (simp add: scripted_def)
  have s: "Status (Metadata (requestStatus ''PAUSED'' '''')) = ''PAUSED''"
    by (simp add: requestStatus_def)
  show ?thesis
    by (rule refresh_other_status_is_pending[where get = scripted, OF _ g s]) simp_all
qed

text \<open>
  C3, as stated, says that the surfaced message equals the remote message. For the
  remote message \<open>disk full\<close> the error of the refresh function reads
  \<open>Request failed with following error: disk full\<close>.
\<close>

theorem refresh_FAILED_message_not_verbatim:
  "resourceStateRefreshFunc (ClientPtr scripted) ''requests/1''
     [Inr (requestStatus ''FAILED'' ''disk full'')] =
     (Return (None, '''', Some (Errorf ''Request failed with following error: disk full'')), [])
   \<and> Error (Errorf ''Request failed with following error: disk full'') \<noteq> ''disk full''"
  by (simp add: resourceStateRefreshFunc_def scripted_def requestStatus_def)

text \<open>
  C3, amended. When the status query succeeds with raw status FAILED and remote message
  \<open>msg\<close>, the refresh function returns an error, with no payload and an empty state
  label, whose message is \<open>Request failed with following error: \<close> followed by \<open>msg\<close>
  as it is. The message is not empty for any \<open>msg\<close>; for the empty \<open>msg\<close> it is that
  prefix alone.
\<close>

theorem refresh_FAILED_message_prefixed:
  assumes "path \<noteq> ''''"
    and "get w path = (Inr request, w')"
    and "Status (Metadata request) = ''FAILED''"
    and "Message (Metadata request) = msg"
  shows "resourceStateRefreshFunc (ClientPtr get) path w =
           (Return (None, '''',
              Some (Errorf (''Request failed with following error: '' @ msg))), w')
       \<and> ''Request failed with following error: '' @ msg \<noteq> ''''"
  using assms by (simp add: resourceStateRefreshFunc_def)

theorem refresh_FAILED_message_prefixed_witness:
  "resourceStateRefreshFunc (ClientPtr scripted) ''requests/1''
     [Inr (requestStatus ''FAILED'' '''')] =
     (Return (None, '''', Some (Errorf ''Request failed with following error: '')), [])"
proof -
  have g: "scripted [Inr (requestStatus ''FAILED'' '''')] ''requests/1'' =
             (Inr (requestStatus ''FAILED'' ''''), [])"
    by (simp add: scripted_def)
  have s: "Status (Metadata (requestStatus ''FAILED'' '''')) = ''FAILED''"
    and m: "Message (Metadata (requestStatus ''FAILED'' '''')) = ''''"
    by (simp_all add: requestStatus_def)
  have p: "''requests/1'' \<noteq> ''''"
    by simp
  from refresh_FAILED_message_prefixed[where get = scripted, OF p g s m] show ?thesis
    by simp
qed

text \<open>
  C5. When the status query succeeds with raw status DONE, whatever the message, the
  refresh function returns the request itself as the payload, the label DONE, which is
  a target state, and no error.
\<close>

theorem refresh_DONE_returns_request:
  assumes "path \<noteq> ''''"
    and "get w path = (Inr request, w')"
    and "Status (Metadata request) = ''DONE''"
  shows "resourceStateRefreshFunc (ClientPtr get) path w =
           (Return (Some request, ''DONE'', None), w')
       \<and> ''DONE'' \<in> set resourceTargetStates"
  using assms by (simp add: resourceStateRefreshFunc_def resourceTargetStates_def)

theorem refresh_DONE_returns_request_witness:
  "resourceStateRefreshFunc (ClientPtr scripted) ''requests/1''
     [Inr (requestStatus ''DONE'' ''disk full'')] =
     (Return (Some (requestStatus ''DONE'' ''disk full''), ''DONE'', None), [])"
proof -
  have g: "scripted [Inr (requestStatus ''DONE'' ''disk full'')] ''requests/1'' =
             (Inr (requestStatus ''DONE'' ''disk full''), [])"
    by (simp add: scripted_def)
  have s: "Status (Metadata (requestStatus ''DONE'' ''disk full'')) = ''DONE''"
    by (simp add: requestStatus_def)
  have p: "''requests/1'' \<noteq> ''''"
    by simp
  from refresh_DONE_returns_request[where get = scripted, OF p g s] show ?thesis
    by simp
qed

section \<open>The wait coordinator\<close>

text \<open>
  C4. For the empty path the refresh function returns its empty-path error, whatever
  the client and the remote world are, and leaves the world as it was: it does not call
  \<open>GetRequestStatus\<close>. The coordinator aborts with that error on its first tick, with
  no status query issued and nothing slept but the initial delay.
\<close>

theorem empty_path_fails_without_query:
  "resourceStateRefreshFunc (ClientPtr get) '''' w =
     (Return (None, '''', Some (Errorf ''Can not check a state when path is empty'')), w)
   \<and> waitForCompletion (Suc fuel) '''' policy get w =
     Some (Aborted (Errorf ''Can not check a state when path is empty''),
           \<lparr>elapsed = initialDelay policy, failures = 0, lastStatus = '''', polls = 0\<rparr>, w)"
  by (simp add: resourceStateRefreshFunc_def waitForCompletion_def poll_def tick_def)









text \<open>
  With the default timeout of 60 minutes there is no such room: when every query fails,
  the coordinator is TimedOut after the 361st poll, 3610 seconds in.
\<close>

lemma wait_times_out_first_at_default_timeout:
  "waitForCompletion 361 ''requests/1''
     (policyOf (getStateChangeConf (ClientPtr unreachable) (resourceData resourceDefaultTimeouts)
        ''requests/1'' ''create''))
     unreachable 0 =
     Some (TimedOut 3610000000000 '''',
           \<lparr>elapsed = 3610000000000, failures = 361, lastStatus = '''', polls = 361\<rparr>, 361)"
  by code_simp



end
